theory Spec2Isabelle
  imports Complex_Main
begin

section \<open>JavaScript values used by the prioritization engine\<close>

text \<open>
  A JavaScript number is either not-a-number, one of the two infinities, or finite.
  Finite numbers are modelled by exact rationals: IEEE rounding of double arithmetic is
  not part of the model.  Strings are lists of code units below 256 (Latin-1).
\<close>

datatype jsnum = NaN | PInf | NInf | Fin rat

datatype jsval = Undefined | Null | Num jsnum | Str string

text \<open>
  What the platform provides and the repository only calls: \<open>Number(s)\<close> on a string,
  the time value of \<open>new Date(s)\<close> in milliseconds (\<open>None\<close> is an Invalid Date, whose time
  value is not-a-number), and the Unicode part of \<open>normalizarTexto\<close>
  (\<open>normalize("NFD")\<close>, removal of combining marks, \<open>trim\<close>, \<open>toLowerCase\<close>).
\<close>

record ambiente =
  StringToNumber :: "string \<Rightarrow> jsnum"
  DateParse :: "string \<Rightarrow> int option"
  normalizarTexto :: "string \<Rightarrow> string"

definition isFinite :: "jsnum \<Rightarrow> bool" where
  "isFinite x = (case x of Fin _ \<Rightarrow> True | _ \<Rightarrow> False)"

text \<open>\<open>Number(v)\<close>: \<open>undefined\<close> gives not-a-number, \<open>null\<close> gives 0.\<close>

definition Number :: "ambiente \<Rightarrow> jsval \<Rightarrow> jsnum" where
  "Number env v =
     (case v of Undefined \<Rightarrow> NaN | Null \<Rightarrow> Fin 0 | Num x \<Rightarrow> x | Str s \<Rightarrow> StringToNumber env s)"

text \<open>
  \<open>Math.round\<close> rounds to the nearest integer, a tie towards plus infinity.  The
  quotients it is applied to are exact here; the code's double can miss an exact tie
  (23 of 40 is 57.5 exactly and slightly less in doubles).
\<close>

definition Math_round :: "rat \<Rightarrow> int" where
  "Math_round x = \<lfloor>x + 1 / 2\<rfloor>"

subsection \<open>Strings\<close>

definition is_space :: "char \<Rightarrow> bool" where
  "is_space c \<longleftrightarrow> c \<in> set [CHR 0x09, CHR 0x0A, CHR 0x0B, CHR 0x0C, CHR 0x0D, CHR 0x20, CHR 0xA0]"

definition trim :: "string \<Rightarrow> string" where
  "trim s = rev (dropWhile is_space (rev (dropWhile is_space s)))"

text \<open>\<open>s.replace('%', '')\<close> with a string pattern removes the first occurrence only.\<close>

definition replace_pct :: "string \<Rightarrow> string" where
  "replace_pct s = remove1 (CHR ''%'') s"

definition lower_char :: "char \<Rightarrow> char" where
  "lower_char c =
     (let n = (of_char c :: nat)
      in if (65 \<le> n \<and> n \<le> 90) \<or> (192 \<le> n \<and> n \<le> 222 \<and> n \<noteq> 215) then char_of (n + 32) else c)"

definition toLowerCase :: "string \<Rightarrow> string" where
  "toLowerCase s = map lower_char s"

subsection \<open>The pattern \<open>/(\d+)[\/,](\d+)/\<close>\<close>

definition is_digit :: "char \<Rightarrow> bool" where
  "is_digit c \<longleftrightarrow> c \<in> set ''0123456789''"

definition is_sep :: "char \<Rightarrow> bool" where
  "is_sep c \<longleftrightarrow> c = CHR ''/'' \<or> c = CHR '',''"

text \<open>
  A match anchored at the head of the string: a maximal run of digits, a separator, and
  the maximal run of digits after it, both runs non-empty.  The two runs are the groups.
  (Giving back digits of the first run never helps: the next character is then a digit,
  not a separator.)
\<close>

definition match_here :: "string \<Rightarrow> (string \<times> string) option" where
  "match_here s =
     (let g1 = takeWhile is_digit s
      in if g1 = [] then None
         else (case dropWhile is_digit s of
                 [] \<Rightarrow> None
               | c # t \<Rightarrow>
                   (let g2 = takeWhile is_digit t
                    in if is_sep c \<and> g2 \<noteq> [] then Some (g1, g2) else None)))"

text \<open>\<open>s.match(re)\<close> without the global flag: the match at the leftmost start index.\<close>

fun regex_match :: "string \<Rightarrow> (string \<times> string) option" where
  "regex_match [] = None"
| "regex_match (c # cs) =
     (case match_here (c # cs) of Some g \<Rightarrow> Some g | None \<Rightarrow> regex_match cs)"

definition digit_val :: "char \<Rightarrow> nat" where
  "digit_val c = of_char c - 48"

text \<open>
  \<open>parseInt\<close> on a non-empty run of decimal digits, as an exact natural number: the
  code's double is the same number below \<open>2^53\<close> and its rounding above.
\<close>

definition parseInt :: "string \<Rightarrow> nat" where
  "parseInt ds = foldl (\<lambda>n c. 10 * n + digit_val c) 0 ds"

section \<open>ValueParsers (utils.js)\<close>

definition converterParaPorcentagem :: "ambiente \<Rightarrow> jsval \<Rightarrow> jsnum" where
  "converterParaPorcentagem env valor =
     (case valor of
        Str s \<Rightarrow>
          (case regex_match s of
             Some (g1, g2) \<Rightarrow>
               (let acertos = parseInt g1; total = parseInt g2
                in if total = 0 then Fin 0
                   else Fin (of_int (Math_round ((of_nat acertos / of_nat total) * 100))))
           | None \<Rightarrow> Number env valor)
      | _ \<Rightarrow> Number env valor)"

text \<open>
  The local \<open>num\<close> of \<open>pctNumber\<close>.  For a number \<open>v\<close>, \<open>String(v)\<close> holds no percent sign
  and \<open>Number(String(v))\<close> is \<open>v\<close> again.
\<close>

definition pct_num :: "ambiente \<Rightarrow> jsval \<Rightarrow> jsnum" where
  "pct_num env v =
     (case v of
        Str s \<Rightarrow> StringToNumber env (trim (replace_pct s))
      | _ \<Rightarrow> Number env v)"

definition pctNumber :: "ambiente \<Rightarrow> jsval \<Rightarrow> rat" where
  "pctNumber env v =
     (if v = Undefined \<or> v = Null then 0
      else (case pct_num env v of Fin x \<Rightarrow> max 0 (min 100 x) | _ \<Rightarrow> 0))"


section \<open>Data model\<close>

text \<open>
  A review-cycle snapshot, as an element of \<open>historico\<close>.  The fields \<open>ecoInicial\<close> and
  \<open>ecoFinal\<close> hold whatever was stored (a percentage number or a string); \<open>ecoFinalRaw\<close>
  is the property that \<open>calcularEcoDaPerformance\<close> reads, \<open>None\<close> when the object has no
  such property.
\<close>

record ciclo =
  c_data :: string
  c_ecoInicial :: jsval
  c_ecoFinal :: jsval
  c_confianca :: string
  c_ecoFinalRaw :: "string option"

text \<open>
  A topic record (\<open>fragmento\<close>).  An optional field is \<open>None\<close> when the property is
  absent (\<open>undefined\<close>).
\<close>

record fragmento =
  f_id :: string
  ownerUid :: "string option"
  tema :: string
  temaSlug :: "string option"
  ultimaRevisao :: "string option"
  revisaoTimestamp :: "int option"
  ecoInicial :: jsval
  ecoFinal :: jsval
  ecoInicialRaw :: "string option"
  ecoFinalRaw :: "string option"
  confianca :: "string option"
  hashtags :: "string list"
  ciclos :: nat
  historico :: "ciclo list option"
  aura :: "string option"


text \<open>Truthiness of a string-valued property: absent and empty are falsy.\<close>

definition truthy :: "string option \<Rightarrow> bool" where
  "truthy v = (case v of None \<Rightarrow> False | Some s \<Rightarrow> s \<noteq> [])"

section \<open>AuraClassifier (\<open>calcularAura\<close>, modules/fragmentos.js)\<close>

text \<open>
  Performance: 70 percent of \<open>ecoInicial\<close> plus 30 percent of \<open>ecoFinal\<close>, in exact
  arithmetic.  The code's doubles can fall on the other side of a threshold when the
  exact value is the threshold itself (53 and 43 give exactly 50).
\<close>

definition desempenho :: "ambiente \<Rightarrow> fragmento \<Rightarrow> rat" where
  "desempenho env item =
     pctNumber env (ecoInicial item) * (7 / 10) + pctNumber env (ecoFinal item) * (3 / 10)"

definition pontosDesempenho :: "ambiente \<Rightarrow> fragmento \<Rightarrow> nat" where
  "pontosDesempenho env item =
     (if desempenho env item < 50 then 3 else if desempenho env item < 80 then 2 else 1)"

definition pontosPiora :: "ambiente \<Rightarrow> fragmento \<Rightarrow> nat" where
  "pontosPiora env item =
     (if pctNumber env (ecoFinal item) < pctNumber env (ecoInicial item) then 1 else 0)"

text \<open>
  \<open>new Date(v)\<close>: the time value in milliseconds, \<open>None\<close> for an Invalid Date.  An absent
  property (\<open>undefined\<close>) gives an Invalid Date.
\<close>

definition newDate :: "ambiente \<Rightarrow> string option \<Rightarrow> int option" where
  "newDate env v = (case v of None \<Rightarrow> None | Some s \<Rightarrow> DateParse env s)"

text \<open>
  \<open>Math.floor((hoje - ultima) / (1000 * 60 * 60 * 24))\<close>, where \<open>hoje\<close> is the time value of
  \<open>new Date()\<close>; \<open>None\<close> is not-a-number.
\<close>

definition diffDias :: "ambiente \<Rightarrow> int \<Rightarrow> fragmento \<Rightarrow> int option" where
  "diffDias env hoje item =
     (case newDate env (ultimaRevisao item) of
        None \<Rightarrow> None
      | Some ultima \<Rightarrow> Some ((hoje - ultima) div (1000 * 60 * 60 * 24)))"

text \<open>\<open>d >= k\<close> on numbers: false when \<open>d\<close> is not-a-number.\<close>

definition js_ge :: "int option \<Rightarrow> int \<Rightarrow> bool" where
  "js_ge d k = (case d of None \<Rightarrow> False | Some n \<Rightarrow> n \<ge> k)"

definition pontosTempo :: "ambiente \<Rightarrow> int \<Rightarrow> fragmento \<Rightarrow> nat" where
  "pontosTempo env hoje item =
     (if js_ge (diffDias env hoje item) 14 then 3
      else if js_ge (diffDias env hoje item) 7 then 2 else 1)"

definition pontosConfianca :: "fragmento \<Rightarrow> nat" where
  "pontosConfianca item =
     (let c = toLowerCase (if truthy (confianca item) then the (confianca item) else [])
      in if c = ''baixo'' then 2
         else if c = [CHR ''m'', CHR 0xE9, CHR ''d'', CHR ''i'', CHR ''o''] then 1 else 0)"

definition pontos :: "ambiente \<Rightarrow> int \<Rightarrow> fragmento \<Rightarrow> nat" where
  "pontos env hoje item =
     pontosDesempenho env item + pontosPiora env item + pontosTempo env hoje item
       + pontosConfianca item"

definition calcularAura :: "ambiente \<Rightarrow> int \<Rightarrow> fragmento \<Rightarrow> string" where
  "calcularAura env hoje item =
     (if pontos env hoje item \<ge> 7 then ''urgente''
      else if pontos env hoje item \<ge> 4 then ''instavel''
      else ''consolidada'')"

section \<open>PerformanceAggregator (utils.js)\<close>




text \<open>
  \<open>calcularEcoDaPerformance\<close> keeps the pair (\<open>totalAcertos\<close>, \<open>totalQuestoes\<close>).
  \<open>acumula\<close> is the guarded block applied to one \<open>ecoFinalRaw\<close> property.
\<close>

definition acumula :: "nat \<times> nat \<Rightarrow> string option \<Rightarrow> nat \<times> nat" where
  "acumula acc raw =
     (if truthy raw then
        (case regex_match (the raw) of
           Some (g1, g2) \<Rightarrow> (fst acc + parseInt g1, snd acc + parseInt g2)
         | None \<Rightarrow> acc)
      else acc)"

definition ecoFragmento :: "nat \<times> nat \<Rightarrow> fragmento \<Rightarrow> nat \<times> nat" where
  "ecoFragmento acc f =
     (let a = acumula acc (ecoFinalRaw f)
      in (case historico f of
            None \<Rightarrow> a
          | Some h \<Rightarrow> foldl (\<lambda>b c. acumula b (c_ecoFinalRaw c)) a h))"

definition calcularEcoDaPerformance :: "fragmento list \<Rightarrow> int" where
  "calcularEcoDaPerformance dados =
     (let acc = foldl ecoFragmento (0, 0) dados
      in if snd acc = 0 then 0
         else Math_round ((of_nat (fst acc) / of_nat (snd acc)) * 100))"

section \<open>PrioritySelector (\<open>selecionarFragmentosUrgentesOuRecentes\<close>, utils.js)\<close>

text \<open>
  The list holds object references; \<open>restantes.includes(f)\<close> compares references.  The
  heap gives the record behind each reference.
\<close>

type_synonym ref = nat

type_synonym heap = "ref \<Rightarrow> fragmento"

text \<open>
  The two filling loops
  \<open>for (i = 0; i < pool.length && restantes.length < limite; i++) restantes.push(pool[i])\<close>.
\<close>

fun preenche :: "'a list \<Rightarrow> 'a list \<Rightarrow> nat \<Rightarrow> 'a list" where
  "preenche restantes [] limite = restantes"
| "preenche restantes (x # xs) limite =
     (if length restantes < limite then preenche (restantes @ [x]) xs limite else restantes)"

text \<open>
  The comparator \<open>new Date(a.ultimaRevisao) - new Date(b.ultimaRevisao)\<close>: not-a-number
  (\<open>None\<close>) as soon as one of the two dates is invalid.
\<close>

definition cmpData :: "ambiente \<Rightarrow> heap \<Rightarrow> ref \<Rightarrow> ref \<Rightarrow> int option" where
  "cmpData env h a b =
     (case (newDate env (ultimaRevisao (h a)), newDate env (ultimaRevisao (h b))) of
        (Some x, Some y) \<Rightarrow> Some (x - y)
      | _ \<Rightarrow> None)"

text \<open>
  \<open>Array.prototype.sort\<close> reads a not-a-number result of the comparator as \<open>+0\<close>
  (SortCompare) and is stable.  It is modelled as a stable insertion sort: an element
  goes in front of the first later element that it does not compare greater than.
  ECMAScript fixes the outcome whenever the comparator is consistent on the array; on an
  inconsistent one (not-a-number against several dated records) the order depends on
  the engine and the model is one admissible order.
\<close>

definition SortCompare :: "('a \<Rightarrow> 'a \<Rightarrow> int option) \<Rightarrow> 'a \<Rightarrow> 'a \<Rightarrow> int" where
  "SortCompare cmp x y = (case cmp x y of None \<Rightarrow> 0 | Some v \<Rightarrow> v)"

fun insere :: "('a \<Rightarrow> 'a \<Rightarrow> int option) \<Rightarrow> 'a \<Rightarrow> 'a list \<Rightarrow> 'a list" where
  "insere cmp x [] = [x]"
| "insere cmp x (y # ys) =
     (if SortCompare cmp x y \<le> 0 then x # y # ys else y # insere cmp x ys)"

fun Array_sort :: "('a \<Rightarrow> 'a \<Rightarrow> int option) \<Rightarrow> 'a list \<Rightarrow> 'a list" where
  "Array_sort cmp [] = []"
| "Array_sort cmp (x # xs) = insere cmp x (Array_sort cmp xs)"

text \<open>\<open>limite\<close> is a count of records, a natural number (5 at the only call site).\<close>

definition selecionarFragmentosUrgentesOuRecentes ::
    "ambiente \<Rightarrow> heap \<Rightarrow> ref list \<Rightarrow> nat \<Rightarrow> ref list" where
  "selecionarFragmentosUrgentesOuRecentes env h lista limite =
     (let urgentes = filter (\<lambda>f. aura (h f) = Some ''urgente'') lista
      in if length urgentes \<ge> limite then take limite urgentes
         else
           (let instaveis = filter (\<lambda>f. aura (h f) = Some ''instavel'') lista;
                restantes = preenche urgentes instaveis limite
            in if length restantes < limite then
                 (let outros = Array_sort (cmpData env h)
                                 (filter (\<lambda>f. f \<notin> set restantes) lista)
                  in preenche restantes outros limite)
               else restantes))"

section \<open>HistoryLedger (database.js)\<close>

datatype erro = UidAusente

text \<open>
  The snapshot pushed on an update, built from the stored data (\<open>dadosAntigos\<close>).  The
  object literal has exactly the four properties \<open>data\<close>, \<open>ecoInicial\<close>, \<open>ecoFinal\<close>
  and \<open>confianca\<close>.  \<open>agora\<close> is \<open>new Date().toISOString()\<close>.
\<close>

definition nullish_zero :: "jsval \<Rightarrow> jsval" where
  "nullish_zero v = (if v = Undefined \<or> v = Null then Num (Fin 0) else v)"

definition instantaneo :: "string \<Rightarrow> fragmento \<Rightarrow> ciclo" where
  "instantaneo agora dadosAntigos =
     \<lparr> c_data = (if truthy (ultimaRevisao dadosAntigos) then the (ultimaRevisao dadosAntigos)
                 else agora),
       c_ecoInicial = nullish_zero (ecoInicial dadosAntigos),
       c_ecoFinal = nullish_zero (ecoFinal dadosAntigos),
       c_confianca = (if truthy (confianca dadosAntigos) then the (confianca dadosAntigos)
                      else []),
       c_ecoFinalRaw = None \<rparr>"

text \<open>
  \<open>updateDoc\<close> overwrites the properties that the update object has and keeps the others.
\<close>

definition ou :: "'a option \<Rightarrow> 'a option \<Rightarrow> 'a option" where
  "ou novo antigo = (case novo of None \<Rightarrow> antigo | Some v \<Rightarrow> Some v)"

definition ou_val :: "jsval \<Rightarrow> jsval \<Rightarrow> jsval" where
  "ou_val novo antigo = (if novo = Undefined then antigo else novo)"

definition historicoNovo :: "string \<Rightarrow> fragmento \<Rightarrow> ciclo list" where
  "historicoNovo agora dadosAntigos =
     (case historico dadosAntigos of None \<Rightarrow> [] | Some hs \<Rightarrow> hs) @ [instantaneo agora dadosAntigos]"

definition atualizado :: "string \<Rightarrow> string \<Rightarrow> string \<Rightarrow> fragmento \<Rightarrow> fragmento \<Rightarrow> fragmento" where
  "atualizado agora uid slug novo dadosAntigos =
     \<lparr> f_id = f_id dadosAntigos,
       ownerUid = Some uid,
       tema = tema novo,
       temaSlug = Some slug,
       ultimaRevisao = Some agora,
       revisaoTimestamp = ou (revisaoTimestamp novo) (revisaoTimestamp dadosAntigos),
       ecoInicial = ou_val (ecoInicial novo) (ecoInicial dadosAntigos),
       ecoFinal = ou_val (ecoFinal novo) (ecoFinal dadosAntigos),
       ecoInicialRaw = ou (ecoInicialRaw novo) (ecoInicialRaw dadosAntigos),
       ecoFinalRaw = ou (ecoFinalRaw novo) (ecoFinalRaw dadosAntigos),
       confianca = ou (confianca novo) (confianca dadosAntigos),
       hashtags = hashtags novo,
       ciclos = length (historicoNovo agora dadosAntigos),
       historico = Some (historicoNovo agora dadosAntigos),
       aura = ou (aura novo) (aura dadosAntigos) \<rparr>"

definition criado :: "string \<Rightarrow> string \<Rightarrow> string \<Rightarrow> string \<Rightarrow> fragmento \<Rightarrow> fragmento" where
  "criado agora uid slug novoId novo =
     novo \<lparr> f_id := novoId, ownerUid := Some uid, temaSlug := Some slug,
            historico := Some [], ciclos := 0, ultimaRevisao := Some agora \<rparr>"

text \<open>Position of the first element that satisfies a predicate (\<open>snap.docs[0]\<close>).\<close>

fun primeiro :: "('a \<Rightarrow> bool) \<Rightarrow> 'a list \<Rightarrow> nat option" where
  "primeiro P [] = None"
| "primeiro P (x # xs) = (if P x then Some 0 else map_option Suc (primeiro P xs))"

text \<open>The two queries: by \<open>temaSlug\<close>, and by the exact \<open>tema\<close> when the first is empty.\<close>

definition docAlvo :: "string \<Rightarrow> string \<Rightarrow> fragmento list \<Rightarrow> nat option" where
  "docAlvo slug t docs =
     (case primeiro (\<lambda>d. temaSlug d = Some slug) docs of
        Some i \<Rightarrow> Some i
      | None \<Rightarrow> primeiro (\<lambda>d. tema d = t) docs)"

text \<open>
  The collection \<open>users/{uid}/fragmentos\<close> is a list of documents in query order, each
  with its document id in \<open>f_id\<close>.  \<open>uid\<close> is the result of \<open>ensureUid\<close>, \<open>novoId\<close> the id
  that \<open>addDoc\<close> generates.  The result is the collection afterwards and the submitted
  object, whose \<open>id\<close> is overwritten when a document is created.
\<close>

definition salvarFragmentoNoFirestore ::
    "ambiente \<Rightarrow> string \<Rightarrow> string \<Rightarrow> string option \<Rightarrow> fragmento \<Rightarrow> fragmento list
       \<Rightarrow> erro + (fragmento list \<times> fragmento)" where
  "salvarFragmentoNoFirestore env agora novoId uid novo docs =
     (if \<not> truthy uid then Inl UidAusente
      else
        (let slug = normalizarTexto env (tema novo)
         in (case docAlvo slug (tema novo) docs of
               Some i \<Rightarrow> Inr (docs[i := atualizado agora (the uid) slug novo (docs ! i)], novo)
             | None \<Rightarrow>
                 Inr (docs @ [criado agora (the uid) slug novoId novo],
                      novo \<lparr> f_id := novoId \<rparr>))))"

text \<open>Sequential submissions, each with its own clock reading and generated id.\<close>

fun submeter ::
    "ambiente \<Rightarrow> string option \<Rightarrow> (string \<times> string \<times> fragmento) list \<Rightarrow> fragmento list
       \<Rightarrow> erro + fragmento list" where
  "submeter env uid [] docs = Inr docs"
| "submeter env uid ((agora, novoId, novo) # resto) docs =
     (case salvarFragmentoNoFirestore env agora novoId uid novo docs of
        Inl e \<Rightarrow> Inl e
      | Inr (docs', _) \<Rightarrow> submeter env uid resto docs')"

text \<open>
  \<open>excluirRevisaoDoCiclo\<close> on the local array: \<open>resposta\<close> is the answer to the
  \<open>confirm\<close> dialog.  The result is the returned value (\<open>None\<close> is \<open>null\<close>), the heap
  afterwards, and the update sent to the store (document id, \<open>historico\<close>, \<open>ciclos\<close>), if
  any.  \<open>historico[cicloIndex]\<close> is a snapshot object, hence truthy, exactly when the
  index is in range.
\<close>

definition splice1 :: "nat \<Rightarrow> 'a list \<Rightarrow> 'a list" where
  "splice1 i xs = take i xs @ drop (Suc i) xs"

definition excluirRevisaoDoCiclo ::
    "string option \<Rightarrow> bool \<Rightarrow> string \<Rightarrow> int \<Rightarrow> ref list \<Rightarrow> heap
       \<Rightarrow> erro + (ref list option \<times> heap \<times> (string \<times> ciclo list \<times> nat) option)" where
  "excluirRevisaoDoCiclo uid resposta ident cicloIndex fragmentosData h =
     (if \<not> truthy uid then Inl UidAusente
      else
        (case find (\<lambda>r. f_id (h r) = ident) fragmentosData of
           None \<Rightarrow> Inr (None, h, None)
         | Some r \<Rightarrow>
             (case historico (h r) of
                None \<Rightarrow> Inr (None, h, None)
              | Some hs \<Rightarrow>
                  if \<not> (0 \<le> cicloIndex \<and> cicloIndex < int (length hs)) then Inr (None, h, None)
                  else if \<not> resposta then Inr (None, h, None)
                  else
                    (let hs' = splice1 (nat cicloIndex) hs;
                         h' = h (r := (h r) \<lparr> historico := Some hs', ciclos := length hs' \<rparr>)
                     in Inr (Some fragmentosData, h', Some (ident, hs', length hs'))))))"

text \<open>The invariant of a topic record: \<open>ciclos\<close> is the length of \<open>historico\<close>.\<close>

definition coerente :: "fragmento \<Rightarrow> bool" where
  "coerente f = (case historico f of None \<Rightarrow> False | Some hs \<Rightarrow> ciclos f = length hs)"

section \<open>The specification's wording of \<open>clampPercent\<close>\<close>

text \<open>
  Section 4.1 of the specification words \<open>clampPercent(v)\<close> as: strips a trailing percent
  sign, coerces to number, returns 0 if non-finite, otherwise clamps to the interval from
  0 to 100.  This definition follows those words, to be compared with \<open>pctNumber\<close>.
\<close>

definition strip_trailing_pct :: "string \<Rightarrow> string" where
  "strip_trailing_pct s = (if s \<noteq> [] \<and> last s = CHR ''%'' then butlast s else s)"

definition clampPercent_spec :: "ambiente \<Rightarrow> jsval \<Rightarrow> rat" where
  "clampPercent_spec env v =
     (case (case v of Str s \<Rightarrow> StringToNumber env (strip_trailing_pct s) | _ \<Rightarrow> Number env v) of
        Fin x \<Rightarrow> max 0 (min 100 x)
      | _ \<Rightarrow> 0)"

section \<open>Example data\<close>

text \<open>
  A platform table that answers on the strings of the examples only, and a record as
  \<open>handleNovoFragmento\<close> builds it.  2024-01-01T00:00:00Z is 1704067200000 ms and
  2023-06-01T00:00:00Z is 1685577600000 ms.
\<close>

definition ambienteExemplo :: ambiente where
  "ambienteExemplo =
     \<lparr> StringToNumber = (\<lambda>s. if s = ''75'' then Fin 75 else NaN),
       DateParse = (\<lambda>s. if s = ''2024-01-01'' then Some 1704067200000
                        else if s = ''2023-06-01'' then Some 1685577600000 else None),
       normalizarTexto = toLowerCase \<rparr>"

definition fragmentoExemplo :: fragmento where
  "fragmentoExemplo =
     \<lparr> f_id = ''1'', ownerUid = Some ''u1'', tema = ''Anatomia'',
       temaSlug = None, ultimaRevisao = Some ''2024-01-01'',
       revisaoTimestamp = Some 1704067200000,
       ecoInicial = Num (Fin 50), ecoFinal = Num (Fin 80),
       ecoInicialRaw = Some ''5/10'', ecoFinalRaw = Some ''8/10'',
       confianca = Some ''Baixa'', hashtags = [], ciclos = 0, historico = Some [],
       aura = None \<rparr>"

definition cicloExemplo :: ciclo where
  "cicloExemplo =
     \<lparr> c_data = ''2023-12-01'', c_ecoInicial = Str ''2/5'', c_ecoFinal = Str ''3/5'',
       c_confianca = ''Alta'', c_ecoFinalRaw = None \<rparr>"

text \<open>Two submissions of the same topic: 5 of 10, then 10 of 10 in the final test.\<close>

definition submissao1 :: fragmento where
  "submissao1 = fragmentoExemplo \<lparr> ecoFinal := Num (Fin 50), ecoFinalRaw := Some ''5/10'' \<rparr>"

definition submissao2 :: fragmento where
  "submissao2 = fragmentoExemplo \<lparr> ecoFinal := Num (Fin 100), ecoFinalRaw := Some ''10/10'' \<rparr>"

text \<open>
  Records without an urgent or unstable tier: 0 was revised on 2024-01-01, 1 has no
  \<open>ultimaRevisao\<close>, 2 has one that does not parse, and every other reference was
  revised on 2023-06-01.
\<close>

definition heapExemplo :: heap where
  "heapExemplo r =
     (if r = 0 then fragmentoExemplo \<lparr> aura := Some ''consolidada'' \<rparr>
      else if r = 1 then
        fragmentoExemplo \<lparr> f_id := ''2'', tema := ''Fisiologia'', ultimaRevisao := None,
                           aura := Some ''consolidada'' \<rparr>
      else if r = 2 then
        fragmentoExemplo \<lparr> f_id := ''3'', tema := ''Citologia'',
                           ultimaRevisao := Some ''ontem'',
                           aura := Some ''consolidada'' \<rparr>
      else
        fragmentoExemplo \<lparr> f_id := ''4'', tema := ''Histologia'',
                           ultimaRevisao := Some ''2023-06-01'',
                           aura := Some ''consolidada'' \<rparr>)"

text \<open>A local array whose records have two past cycles.\<close>

definition heapCiclos :: heap where
  "heapCiclos r =
     fragmentoExemplo
       \<lparr> historico := Some [cicloExemplo, cicloExemplo \<lparr> c_data := ''2023-12-15'' \<rparr>],
         ciclos := 2 \<rparr>"

text \<open>A local array with three urgent records (0, 1, 2) and two unstable ones (3, 4).\<close>

definition heapAuras :: heap where
  "heapAuras r =
     fragmentoExemplo
       \<lparr> aura := Some (if r < 3 then ''urgente''
                        else if r < 5 then ''instavel'' else ''consolidada'') \<rparr>"

section \<open>Properties of the value parsers\<close>

lemma match_here_no_digit: "\<not> is_digit c \<Longrightarrow> match_here (c # s) = None"
  by (simp add: match_here_def)

lemma regex_match_skip:
  "\<forall>c\<in>set p. \<not> is_digit c \<Longrightarrow> regex_match (p @ d # s) = regex_match (d # s)"
  by (induction p) (simp_all add: match_here_no_digit)

lemma Math_round_numeral: "Math_round (numeral n) = numeral n"
  by (simp add: Math_round_def floor_eq_iff)

lemma match_15_10:
  "takeWhile is_digit q = [] \<Longrightarrow> match_here (''15/10'' @ q) = Some (''15'', ''10'')"
  by (simp add: match_here_def is_digit_def is_sep_def)

lemma parseInt_15: "parseInt ''15'' = 15" and parseInt_10: "parseInt ''10'' = 10"
  by (simp_all add: parseInt_def digit_val_def)

text \<open>
  Claim C10.  \<open>converterParaPorcentagem\<close> does not clamp: on \<open>"15/10"\<close> it returns 150,
  which is above 100.  The pattern is searched inside the string: with any digit-free
  text in front and any text that does not start with a digit behind, the result is the
  same.
\<close>

theorem converterParaPorcentagem_unclamped:
  "converterParaPorcentagem env (Str ''15/10'') = Fin 150 \<and> (100 :: rat) < 150 \<and>
   ((\<forall>c\<in>set p. \<not> is_digit c) \<and> takeWhile is_digit q = [] \<longrightarrow>
      converterParaPorcentagem env (Str (p @ ''15/10'' @ q)) = Fin 150)"
proof -
  have m: "regex_match (p @ ''15/10'' @ q) = Some (''15'', ''10'')"
    if "\<forall>c\<in>set p. \<not> is_digit c" and "takeWhile is_digit q = []" for p q
  proof -
    have "regex_match (p @ ''15/10'' @ q) = regex_match (''15/10'' @ q)"
      using regex_match_skip [OF that(1), of "CHR ''1''" "''5/10'' @ q"] by simp
    also have "\<dots> = Some (''15'', ''10'')"
      using match_15_10 [OF that(2)] by simp
    finally show ?thesis .
  qed
  have v: "converterParaPorcentagem env (Str s) = Fin 150"
    if "regex_match s = Some (''15'', ''10'')" for s
    using that
    by (simp add: converterParaPorcentagem_def parseInt_15 parseInt_10 Math_round_numeral)
  have "regex_match ''15/10'' = Some (''15'', ''10'')"
    using m [of "[]" "[]"] by simp
  with v m show ?thesis by simp
qed

theorem converterParaPorcentagem_unclamped_witness:
  "takeWhile is_digit '' (extra)'' = [] \<and>
   converterParaPorcentagem ambienteExemplo (Str ''nota: 15/10 (extra)'') = Fin 150"
  using converterParaPorcentagem_unclamped [of ambienteExemplo "''nota: ''" "'' (extra)''"]
  by (simp add: is_digit_def)

lemma set_dropWhile_keep: "\<not> P x \<Longrightarrow> x \<in> set (dropWhile P xs) \<longleftrightarrow> x \<in> set xs"
  by (induction xs) auto

lemma pct_in_trim: "CHR ''%'' \<in> set (trim t) \<longleftrightarrow> CHR ''%'' \<in> set t"
proof -
  have n: "\<not> is_space (CHR ''%'')" by (simp add: is_space_def)
  have "CHR ''%'' \<in> set (trim t) \<longleftrightarrow> CHR ''%'' \<in> set (rev (dropWhile is_space t))"
    unfolding trim_def
    using set_dropWhile_keep [of is_space "CHR ''%''" "rev (dropWhile is_space t)"] n by simp
  also have "\<dots> \<longleftrightarrow> CHR ''%'' \<in> set t"
    using set_dropWhile_keep [of is_space "CHR ''%''" t] n by simp
  finally show ?thesis .
qed

lemma trailing_pct:
  assumes "\<forall>t. CHR ''%'' \<in> set t \<longrightarrow> StringToNumber env t = NaN"
  shows "pct_num env (Str (s @ ''%'')) = StringToNumber env (trim s)"
proof (cases "CHR ''%'' \<in> set s")
  case False
  then show ?thesis
    by (simp add: pct_num_def replace_pct_def remove1_append remove1_idem)
next
  case True
  then have "CHR ''%'' \<in> set (trim (replace_pct (s @ ''%'')))"
    by (simp add: pct_in_trim replace_pct_def remove1_append)
  with assms have "pct_num env (Str (s @ ''%'')) = NaN"
    by (simp add: pct_num_def)
  moreover from True assms have "StringToNumber env (trim s) = NaN"
    by (simp add: pct_in_trim)
  ultimately show ?thesis by simp
qed

lemma pctNumber_Str:
  "pctNumber env (Str s)
     = (case StringToNumber env (trim (remove1 (CHR ''%'') s)) of
          Fin x \<Rightarrow> max 0 (min 100 x) | _ \<Rightarrow> 0)"
  by (simp add: pctNumber_def pct_num_def replace_pct_def)

lemma pctNumber_Num:
  "pctNumber env (Num n) = (case n of Fin x \<Rightarrow> max 0 (min 100 x) | _ \<Rightarrow> 0)"
  by (simp add: pctNumber_def pct_num_def Number_def)

text \<open>
  Claim C8.  \<open>pctNumber\<close> returns a value between 0 and 100 for every input.  On a
  string it removes the first percent sign, wherever it stands, trims, coerces the rest
  with \<open>Number\<close> and clamps the result, or returns 0 when that number is not finite; on a
  number it clamps the number, or returns 0 when it is not finite; on \<open>undefined\<close> and
  \<open>null\<close> it returns 0.  So a single percent sign counts for nothing, at the end of the
  string and in front of it alike.
\<close>

theorem pctNumber_first_percent:
  "0 \<le> pctNumber env v \<and> pctNumber env v \<le> 100
   \<and> pctNumber env Undefined = 0 \<and> pctNumber env Null = 0
   \<and> pctNumber env (Num n) = (case n of Fin x \<Rightarrow> max 0 (min 100 x) | _ \<Rightarrow> 0)
   \<and> pctNumber env (Str s)
        = (case StringToNumber env (trim (remove1 (CHR ''%'') s)) of
             Fin x \<Rightarrow> max 0 (min 100 x) | _ \<Rightarrow> 0)
   \<and> (\<not> isFinite (StringToNumber env (trim (remove1 (CHR ''%'') s))) \<longrightarrow>
        pctNumber env (Str s) = 0)
   \<and> (\<not> isFinite n \<longrightarrow> pctNumber env (Num n) = 0)
   \<and> (CHR ''%'' \<notin> set s \<longrightarrow>
        pctNumber env (Str (s @ ''%''))
          = (case StringToNumber env (trim s) of Fin x \<Rightarrow> max 0 (min 100 x) | _ \<Rightarrow> 0)
        \<and> pctNumber env (Str (''%'' @ s))
            = (case StringToNumber env (trim s) of Fin x \<Rightarrow> max 0 (min 100 x) | _ \<Rightarrow> 0))
   \<and> ((\<forall>t. CHR ''%'' \<in> set t \<longrightarrow> StringToNumber env t = NaN) \<longrightarrow>
        pctNumber env (Str (s @ ''%''))
          = (case StringToNumber env (trim s) of Fin y \<Rightarrow> max 0 (min 100 y) | _ \<Rightarrow> 0))"
proof -
  have r: "0 \<le> pctNumber env v \<and> pctNumber env v \<le> 100"
    by (cases "pct_num env v") (simp_all add: pctNumber_def)
  have u: "pctNumber env Undefined = 0 \<and> pctNumber env Null = 0"
    by (simp add: pctNumber_def)
  have zs: "pctNumber env (Str s) = 0"
    if "\<not> isFinite (StringToNumber env (trim (remove1 (CHR ''%'') s)))"
    using that
    by (cases "StringToNumber env (trim (remove1 (CHR ''%'') s))")
      (simp_all add: pctNumber_Str isFinite_def)
  have zn: "pctNumber env (Num n) = 0" if "\<not> isFinite n"
    using that by (cases n) (simp_all add: pctNumber_Num isFinite_def)
  have t: "pctNumber env (Str (s @ ''%''))
          = (case StringToNumber env (trim s) of Fin x \<Rightarrow> max 0 (min 100 x) | _ \<Rightarrow> 0)
        \<and> pctNumber env (Str (''%'' @ s))
            = (case StringToNumber env (trim s) of Fin x \<Rightarrow> max 0 (min 100 x) | _ \<Rightarrow> 0)"
    if "CHR ''%'' \<notin> set s"
    using that by (simp add: pctNumber_Str remove1_append)
  have a: "pctNumber env (Str (s @ ''%''))
          = (case StringToNumber env (trim s) of Fin y \<Rightarrow> max 0 (min 100 y) | _ \<Rightarrow> 0)"
    if "\<forall>t. CHR ''%'' \<in> set t \<longrightarrow> StringToNumber env t = NaN"
    using trailing_pct [OF that, of s] by (simp add: pctNumber_def)
  from r u zs zn t a pctNumber_Str [of env s] pctNumber_Num [of env n] show ?thesis
    by blast
qed

theorem pctNumber_first_percent_witness:
  "\<not> isFinite (StringToNumber ambienteExemplo (trim (remove1 (CHR ''%'') ''x%'')))
   \<and> pctNumber ambienteExemplo (Str ''x%'') = 0
   \<and> pctNumber ambienteExemplo (Str ''75%'') = 75
   \<and> pctNumber ambienteExemplo (Str ''%75'') = 75
   \<and> pctNumber ambienteExemplo (Str '' 75 '') = 75
   \<and> pctNumber ambienteExemplo (Num (Fin 250)) = 100
   \<and> pctNumber ambienteExemplo (Num PInf) = 0"
proof -
  have a: "StringToNumber ambienteExemplo (trim (remove1 (CHR ''%'') ''x%'')) = NaN"
    by (simp add: trim_def is_space_def ambienteExemplo_def)
  have b: "StringToNumber ambienteExemplo (trim ''75'') = Fin 75"
    by (simp add: trim_def is_space_def ambienteExemplo_def)
  have c: "StringToNumber ambienteExemplo (trim (remove1 (CHR ''%'') '' 75 '')) = Fin 75"
    by (simp add: trim_def is_space_def ambienteExemplo_def)
  have n: "CHR ''%'' \<notin> set ''75''"
    by simp
  have 1: "pctNumber ambienteExemplo (Str ''x%'') = 0"
    using pctNumber_first_percent [of ambienteExemplo Null PInf "''x%''"] a
    by (simp add: isFinite_def)
  have 2: "pctNumber ambienteExemplo (Str ''75%'') = 75
      \<and> pctNumber ambienteExemplo (Str ''%75'') = 75"
    using pctNumber_first_percent [of ambienteExemplo Null "Fin 250" "''75''"] b n by simp
  have 3: "pctNumber ambienteExemplo (Str '' 75 '') = 75"
    using pctNumber_first_percent [of ambienteExemplo Null "Fin 250" "'' 75 ''"] c by simp
  have 4: "pctNumber ambienteExemplo (Num (Fin 250)) = 100"
    using pctNumber_first_percent [of ambienteExemplo Null "Fin 250" "[]"] by simp
  have 5: "pctNumber ambienteExemplo (Num PInf) = 0"
    using pctNumber_first_percent [of ambienteExemplo Null PInf "[]"] by (simp add: isFinite_def)
  from a 1 2 3 4 5 show ?thesis by (simp add: isFinite_def)
qed

text \<open>
  Claim C8, with only a trailing percent sign stripped: \<open>"%75"\<close> has none at its end and
  \<open>Number("%75")\<close> is not-a-number, so the specification's wording gives 0, while
  \<open>pctNumber\<close> removes the leading sign and returns 75.
\<close>

theorem pctNumber_leading_percent:
  "strip_trailing_pct ''%75'' = ''%75''
   \<and> StringToNumber ambienteExemplo ''%75'' = NaN
   \<and> clampPercent_spec ambienteExemplo (Str ''%75'') = 0
   \<and> pctNumber ambienteExemplo (Str ''%75'') = 75"
  by (simp add: strip_trailing_pct_def clampPercent_spec_def pctNumber_def pct_num_def
        replace_pct_def trim_def is_space_def ambienteExemplo_def)

section \<open>Properties of the aggregates\<close>

text \<open>
  Claim C3.  The snapshot that \<open>salvarFragmentoNoFirestore\<close> pushes has no \<open>ecoFinalRaw\<close>
  property, so \<open>calcularEcoDaPerformance\<close> adds nothing for it.  After a submission with
  5 of 10 followed by one with 10 of 10 for the same topic, the history holds the first
  cycle (\<open>ecoFinal\<close> 50) and the pooled percentage is 100, the value of the current
  record alone; pooled over both cycles it would be 15 of 20, that is 75.
\<close>

theorem calcularEcoDaPerformance_ignores_upsert_history:
  "acumula acc (c_ecoFinalRaw (instantaneo agora d)) = acc
   \<and> map_sum id (map (\<lambda>d. map_option (map c_ecoFinal) (historico d)))
        (submeter ambienteExemplo (Some ''u1'')
           [(''2024-01-01T10:00:00.000Z'', ''d1'', submissao1),
            (''2024-01-08T10:00:00.000Z'', ''d2'', submissao2)] [])
       = Inr [Some [Num (Fin 50)]]
   \<and> map_sum id calcularEcoDaPerformance
        (submeter ambienteExemplo (Some ''u1'')
           [(''2024-01-01T10:00:00.000Z'', ''d1'', submissao1),
            (''2024-01-08T10:00:00.000Z'', ''d2'', submissao2)] [])
       = Inr 100"
proof -
  have "submeter ambienteExemplo (Some ''u1'')
           [(''2024-01-01T10:00:00.000Z'', ''d1'', submissao1),
            (''2024-01-08T10:00:00.000Z'', ''d2'', submissao2)] []
        = Inr [atualizado ''2024-01-08T10:00:00.000Z'' ''u1'' (toLowerCase ''Anatomia'') submissao2
                 (criado ''2024-01-01T10:00:00.000Z'' ''u1'' (toLowerCase ''Anatomia'') ''d1'' submissao1)]"
    by (simp add: salvarFragmentoNoFirestore_def truthy_def docAlvo_def ambienteExemplo_def Let_def
          submissao1_def submissao2_def fragmentoExemplo_def criado_def)
  moreover have "calcularEcoDaPerformance
      [atualizado ''2024-01-08T10:00:00.000Z'' ''u1'' (toLowerCase ''Anatomia'') submissao2
                 (criado ''2024-01-01T10:00:00.000Z'' ''u1'' (toLowerCase ''Anatomia'') ''d1'' submissao1)] = 100"
    by (simp add: calcularEcoDaPerformance_def ecoFragmento_def acumula_def truthy_def
          atualizado_def ou_def historicoNovo_def instantaneo_def criado_def
          submissao1_def submissao2_def fragmentoExemplo_def
          match_here_def is_digit_def is_sep_def parseInt_def digit_val_def Math_round_def
          floor_eq_iff Let_def)
  moreover have "map_option (map c_ecoFinal) (historico
      (atualizado ''2024-01-08T10:00:00.000Z'' ''u1'' (toLowerCase ''Anatomia'') submissao2
                 (criado ''2024-01-01T10:00:00.000Z'' ''u1'' (toLowerCase ''Anatomia'') ''d1'' submissao1)))
      = Some [Num (Fin 50)]"
    by (simp add: atualizado_def historicoNovo_def instantaneo_def criado_def nullish_zero_def
          submissao1_def fragmentoExemplo_def)
  ultimately show ?thesis
    by (simp add: acumula_def truthy_def instantaneo_def)
qed


section \<open>Properties of the classifier\<close>

lemma toLowerCase_Baixa: "toLowerCase ''Baixa'' = ''baixa''"
  by code_simp

text \<open>
  Claim C7.  When \<open>ultimaRevisao\<close> is absent or does not parse as a date, the number of
  days is not-a-number, no \<open>>=\<close> comparison on it holds, and the recency term is 1: the
  score of \<open>calcularAura\<close> is the performance, regression and confidence terms plus 1,
  and the tier is read from that score.  The same record with a date 14 days old or
  older gets the recency term 3 and scores 2 more.
\<close>

theorem calcularAura_invalid_date:
  assumes "ultimaRevisao item = None
           \<or> (\<exists>s. ultimaRevisao item = Some s \<and> DateParse env s = None)"
  shows "diffDias env hoje item = None \<and> (\<forall>k. \<not> js_ge (diffDias env hoje item) k)
     \<and> pontosTempo env hoje item = 1
     \<and> pontos env hoje item
         = pontosDesempenho env item + pontosPiora env item + 1 + pontosConfianca item
     \<and> calcularAura env hoje item
         = (if pontosDesempenho env item + pontosPiora env item + 1 + pontosConfianca item \<ge> 7
            then ''urgente''
            else if pontosDesempenho env item + pontosPiora env item + 1 + pontosConfianca item \<ge> 4
            then ''instavel'' else ''consolidada'')
     \<and> (\<forall>s2 t. DateParse env s2 = Some t \<and> 14 * (1000 * 60 * 60 * 24) \<le> hoje - t \<longrightarrow>
           pontosTempo env hoje (item \<lparr> ultimaRevisao := Some s2 \<rparr>) = 3
           \<and> pontos env hoje (item \<lparr> ultimaRevisao := Some s2 \<rparr>) = pontos env hoje item + 2)"
proof -
  have d: "diffDias env hoje item = None"
    using assms by (auto simp: diffDias_def newDate_def)
  then have g: "\<not> js_ge (diffDias env hoje item) k" for k
    by (simp add: js_ge_def)
  have t: "pontosTempo env hoje item = 1"
    by (simp add: pontosTempo_def g)
  have p: "pontos env hoje item
         = pontosDesempenho env item + pontosPiora env item + 1 + pontosConfianca item"
    by (simp add: pontos_def t)
  have c: "calcularAura env hoje item
         = (if pontosDesempenho env item + pontosPiora env item + 1 + pontosConfianca item \<ge> 7
            then ''urgente''
            else if pontosDesempenho env item + pontosPiora env item + 1 + pontosConfianca item \<ge> 4
            then ''instavel'' else ''consolidada'')"
    unfolding calcularAura_def p by (rule refl)
  have o: "pontosTempo env hoje (item \<lparr> ultimaRevisao := Some s2 \<rparr>) = 3
           \<and> pontos env hoje (item \<lparr> ultimaRevisao := Some s2 \<rparr>) = pontos env hoje item + 2"
    if "DateParse env s2 = Some t" "14 * (1000 * 60 * 60 * 24) \<le> hoje - t" for s2 t
  proof -
    have "14 \<le> (hoje - t) div (1000 * 60 * 60 * 24)"
      using zdiv_mono1 [of "14 * (1000 * 60 * 60 * 24)" "hoje - t" "1000 * 60 * 60 * 24"] that(2)
      by simp
    then have 3: "pontosTempo env hoje (item \<lparr> ultimaRevisao := Some s2 \<rparr>) = 3"
      using that(1) by (simp add: pontosTempo_def diffDias_def newDate_def js_ge_def)
    then show ?thesis
      by (simp add: pontos_def t pontosDesempenho_def desempenho_def pontosPiora_def
            pontosConfianca_def)
  qed
  from d g t p c o show ?thesis by blast
qed

theorem calcularAura_invalid_date_witness:
  "DateParse ambienteExemplo ''ontem'' = None
   \<and> diffDias ambienteExemplo 1705795200000
        (fragmentoExemplo \<lparr> ultimaRevisao := Some ''ontem'' \<rparr>) = None
   \<and> pontosTempo ambienteExemplo 1705795200000
        (fragmentoExemplo \<lparr> ultimaRevisao := Some ''ontem'' \<rparr>) = 1
   \<and> pontos ambienteExemplo 1705795200000
        (fragmentoExemplo \<lparr> ultimaRevisao := Some ''ontem'' \<rparr>) = 3
   \<and> calcularAura ambienteExemplo 1705795200000
        (fragmentoExemplo \<lparr> ultimaRevisao := Some ''ontem'' \<rparr>) = ''consolidada''
   \<and> pontos ambienteExemplo 1705795200000
        (fragmentoExemplo \<lparr> ultimaRevisao := Some ''2023-06-01'' \<rparr>) = 5"
proof -
  let ?f = "fragmentoExemplo \<lparr> ultimaRevisao := Some ''ontem'' \<rparr>"
  have h: "ultimaRevisao ?f = None
      \<or> (\<exists>s. ultimaRevisao ?f = Some s \<and> DateParse ambienteExemplo s = None)"
    by (simp add: ambienteExemplo_def)
  have d: "pontosDesempenho ambienteExemplo ?f = 2"
    by (simp add: pontosDesempenho_def desempenho_def pctNumber_def pct_num_def Number_def
          fragmentoExemplo_def)
  have p: "pontosPiora ambienteExemplo ?f = 0"
    by (simp add: pontosPiora_def pctNumber_def pct_num_def Number_def fragmentoExemplo_def)
  have c: "pontosConfianca ?f = 0"
    by (simp add: pontosConfianca_def truthy_def fragmentoExemplo_def toLowerCase_Baixa)
  have o: "DateParse ambienteExemplo ''2023-06-01'' = Some 1685577600000"
    by (simp add: ambienteExemplo_def)
  note T = calcularAura_invalid_date [OF h, of 1705795200000]
  from T have n: "diffDias ambienteExemplo 1705795200000 ?f = None"
    and t: "pontosTempo ambienteExemplo 1705795200000 ?f = 1"
    and s: "pontos ambienteExemplo 1705795200000 ?f
         = pontosDesempenho ambienteExemplo ?f + pontosPiora ambienteExemplo ?f + 1
           + pontosConfianca ?f"
    by blast+
  from s have s3: "pontos ambienteExemplo 1705795200000 ?f = 3"
    by (simp add: d p c)
  from T have a: "calcularAura ambienteExemplo 1705795200000 ?f
         = (if pontosDesempenho ambienteExemplo ?f + pontosPiora ambienteExemplo ?f + 1
                + pontosConfianca ?f \<ge> 7
            then ''urgente''
            else if pontosDesempenho ambienteExemplo ?f + pontosPiora ambienteExemplo ?f + 1
                + pontosConfianca ?f \<ge> 4
            then ''instavel'' else ''consolidada'')"
    by blast
  have a3: "calcularAura ambienteExemplo 1705795200000 ?f = ''consolidada''"
    unfolding a d p c by simp
  from T o have "pontos ambienteExemplo 1705795200000 (?f \<lparr> ultimaRevisao := Some ''2023-06-01'' \<rparr>)
        = pontos ambienteExemplo 1705795200000 ?f + 2"
    by simp
  then have s5: "pontos ambienteExemplo 1705795200000
        (fragmentoExemplo \<lparr> ultimaRevisao := Some ''2023-06-01'' \<rparr>) = 5"
    by (simp add: s3)
  have "DateParse ambienteExemplo ''ontem'' = None"
    by (simp add: ambienteExemplo_def)
  with n t s3 a3 s5 show ?thesis by blast
qed

text \<open>
  Claim C1.  The record with \<open>ecoInicial\<close> 50, \<open>ecoFinal\<close> 80, confidence \<open>"Baixa"\<close> and a
  last revision 20 days before \<open>hoje\<close>: the performance term is 2, the regression term 0
  and the recency term 3, but the confidence term is 0, because \<open>"baixa"\<close> is not
  \<open>"baixo"\<close>.  The total is 5 and the tier is \<open>instavel\<close>.
\<close>

theorem calcularAura_Baixa_scenario:
  "pontosDesempenho ambienteExemplo fragmentoExemplo = 2
   \<and> pontosPiora ambienteExemplo fragmentoExemplo = 0
   \<and> diffDias ambienteExemplo 1705795200000 fragmentoExemplo = Some 20
   \<and> pontosTempo ambienteExemplo 1705795200000 fragmentoExemplo = 3
   \<and> pontosConfianca fragmentoExemplo = 0
   \<and> pontos ambienteExemplo 1705795200000 fragmentoExemplo = 5
   \<and> calcularAura ambienteExemplo 1705795200000 fragmentoExemplo = ''instavel''"
proof -
  have d: "pontosDesempenho ambienteExemplo fragmentoExemplo = 2"
    by (simp add: pontosDesempenho_def desempenho_def pctNumber_def pct_num_def Number_def
          fragmentoExemplo_def)
  have p: "pontosPiora ambienteExemplo fragmentoExemplo = 0"
    by (simp add: pontosPiora_def pctNumber_def pct_num_def Number_def fragmentoExemplo_def)
  have n: "diffDias ambienteExemplo 1705795200000 fragmentoExemplo = Some 20"
    by (simp add: diffDias_def newDate_def ambienteExemplo_def fragmentoExemplo_def)
  have t: "pontosTempo ambienteExemplo 1705795200000 fragmentoExemplo = 3"
    by (simp add: pontosTempo_def n js_ge_def)
  have c: "pontosConfianca fragmentoExemplo = 0"
    by (simp add: pontosConfianca_def truthy_def fragmentoExemplo_def toLowerCase_Baixa)
  show ?thesis
    by (simp add: calcularAura_def pontos_def d p n t c)
qed

section \<open>Properties of the priority selection\<close>

lemma preenche_eq: "preenche r pool n = r @ take (n - length r) pool"
proof (induction pool arbitrary: r)
  case Nil
  show ?case by simp
next
  case (Cons x xs)
  show ?case
  proof (cases "length r < n")
    case True
    then obtain k where k: "n - length r = Suc k" by (cases "n - length r") auto
    then have "n - length (r @ [x]) = k" by simp
    with True k Cons.IH [of "r @ [x]"] show ?thesis by simp
  next
    case False
    then show ?thesis by simp
  qed
qed

lemma set_insere: "set (insere cmp x ys) = insert x (set ys)"
  by (induction ys) auto

lemma set_Array_sort: "set (Array_sort cmp xs) = set xs"
  by (induction xs) (simp_all add: set_insere)

lemma distinct_insere: "distinct (insere cmp x ys) = (x \<notin> set ys \<and> distinct ys)"
  by (induction ys) (auto simp: set_insere)

lemma distinct_Array_sort: "distinct (Array_sort cmp xs) = distinct xs"
  by (induction xs) (simp_all add: distinct_insere set_Array_sort)

lemma distinct_append_take:
  "distinct xs \<Longrightarrow> distinct ys \<Longrightarrow> set xs \<inter> set ys = {} \<Longrightarrow> distinct (xs @ take k ys)"
  using set_take_subset [of k ys] by (auto simp: distinct_take)

text \<open>
  Claim C4.  The selection never has more than \<open>limite\<close> elements; it holds only
  elements of the list, and none twice when the list holds none twice; when at least
  \<open>limite\<close> records are urgent, it is the first \<open>limite\<close> urgent records in list order.
\<close>

theorem selecionar_bounded_distinct:
  "length (selecionarFragmentosUrgentesOuRecentes env h lista limite) \<le> limite
   \<and> (distinct lista \<longrightarrow> distinct (selecionarFragmentosUrgentesOuRecentes env h lista limite))
   \<and> set (selecionarFragmentosUrgentesOuRecentes env h lista limite) \<subseteq> set lista
   \<and> (limite \<le> length (filter (\<lambda>f. aura (h f) = Some ''urgente'') lista) \<longrightarrow>
        selecionarFragmentosUrgentesOuRecentes env h lista limite
          = take limite (filter (\<lambda>f. aura (h f) = Some ''urgente'') lista))"
proof -
  define Us where "Us = filter (\<lambda>f. aura (h f) = Some ''urgente'') lista"
  define Is where "Is = filter (\<lambda>f. aura (h f) = Some ''instavel'') lista"
  define Rs where "Rs = Us @ take (limite - length Us) Is"
  define Os where "Os = Array_sort (cmpData env h) (filter (\<lambda>f. f \<notin> set Rs) lista)"
  have sel: "selecionarFragmentosUrgentesOuRecentes env h lista limite =
      (if limite \<le> length Us then take limite Us
       else if length Rs < limite then Rs @ take (limite - length Rs) Os else Rs)"
    unfolding selecionarFragmentosUrgentesOuRecentes_def Let_def preenche_eq
      Os_def Rs_def Is_def Us_def
    by (rule refl)
  have lenR: "\<not> limite \<le> length Us \<Longrightarrow> length Rs \<le> limite"
    by (simp add: Rs_def)
  have len: "length (selecionarFragmentosUrgentesOuRecentes env h lista limite) \<le> limite"
    using lenR by (auto simp: sel)
  have UI: "set Us \<inter> set Is = {}"
    by (auto simp: Us_def Is_def)
  have dR: "distinct Rs" if "distinct lista"
    unfolding Rs_def using that UI
    by (intro distinct_append_take) (simp_all add: Us_def Is_def)
  have RO: "set Rs \<inter> set Os = {}"
    by (auto simp: Os_def set_Array_sort)
  have dO: "distinct Os" if "distinct lista"
    using that by (simp add: Os_def distinct_Array_sort)
  have dist: "distinct (selecionarFragmentosUrgentesOuRecentes env h lista limite)"
    if "distinct lista"
  proof -
    have "distinct (take limite Us)"
      using that by (simp add: Us_def)
    moreover have "distinct (Rs @ take (limite - length Rs) Os)"
      using dR [OF that] dO [OF that] RO by (rule distinct_append_take)
    ultimately show ?thesis
      using dR [OF that] by (simp add: sel)
  qed
  have subR: "set Rs \<subseteq> set lista"
    using set_take_subset [of "limite - length Us" Is] by (auto simp: Rs_def Us_def Is_def)
  have subO: "set Os \<subseteq> set lista"
    by (auto simp: Os_def set_Array_sort)
  have sub: "set (selecionarFragmentosUrgentesOuRecentes env h lista limite) \<subseteq> set lista"
    using subR subO set_take_subset [of "limite - length Rs" Os] set_take_subset [of limite Us]
    by (auto simp: sel Us_def)
  have urg: "selecionarFragmentosUrgentesOuRecentes env h lista limite = take limite Us"
    if "limite \<le> length Us"
    using that by (simp add: sel)
  from len dist sub urg show ?thesis
    unfolding Us_def by blast
qed

theorem selecionar_bounded_distinct_witness:
  "distinct [7, 0, 3, 4, 2 :: nat]
   \<and> filter (\<lambda>f. aura (heapAuras f) = Some ''urgente'') [7, 0, 3, 4, 2] = [0, 2]
   \<and> selecionarFragmentosUrgentesOuRecentes ambienteExemplo heapAuras [7, 0, 3, 4, 2] 2 = [0, 2]
   \<and> distinct (selecionarFragmentosUrgentesOuRecentes ambienteExemplo heapAuras [7, 0, 3, 4, 2] 4)
   \<and> length (selecionarFragmentosUrgentesOuRecentes ambienteExemplo heapAuras [7, 0, 3, 4, 2] 4) \<le> 4"
proof -
  have d: "distinct [7, 0, 3, 4, 2 :: nat]"
    by simp
  have u: "filter (\<lambda>f. aura (heapAuras f) = Some ''urgente'') [7, 0, 3, 4, 2] = [0, 2]"
    by (simp add: heapAuras_def)
  have l: "2 \<le> length (filter (\<lambda>f. aura (heapAuras f) = Some ''urgente'') [7, 0, 3, 4, 2])"
    unfolding u by simp
  have "selecionarFragmentosUrgentesOuRecentes ambienteExemplo heapAuras [7, 0, 3, 4, 2] 2
          = take 2 (filter (\<lambda>f. aura (heapAuras f) = Some ''urgente'') [7, 0, 3, 4, 2])"
    using selecionar_bounded_distinct [of ambienteExemplo heapAuras "[7, 0, 3, 4, 2]" 2] l
    by blast
  then have s: "selecionarFragmentosUrgentesOuRecentes ambienteExemplo heapAuras [7, 0, 3, 4, 2] 2
          = [0, 2]"
    unfolding u by simp
  have "distinct (selecionarFragmentosUrgentesOuRecentes ambienteExemplo heapAuras [7, 0, 3, 4, 2] 4)
     \<and> length (selecionarFragmentosUrgentesOuRecentes ambienteExemplo heapAuras [7, 0, 3, 4, 2] 4) \<le> 4"
    using selecionar_bounded_distinct [of ambienteExemplo heapAuras "[7, 0, 3, 4, 2]" 4] d
    by blast
  with d u s show ?thesis by blast
qed

text \<open>
  Claim C4, for a list that holds the same urgent record twice: the selection holds it
  twice as well.
\<close>

theorem selecionar_repeats_repeated:
  "selecionarFragmentosUrgentesOuRecentes ambienteExemplo heapAuras [0, 0] 5 = [0, 0]
   \<and> \<not> distinct (selecionarFragmentosUrgentesOuRecentes ambienteExemplo heapAuras [0, 0] 5)"
  by (simp add: selecionarFragmentosUrgentesOuRecentes_def heapAuras_def)

text \<open>
  Claim C5.  With two records outside the urgent and unstable tiers, the first revised
  on 2024-01-01 and the second without a last-revision date, or with one that does not
  parse, the comparator is not-a-number and the second record stays behind the dated
  one.  With two dated records the older one comes first.
\<close>

theorem selecionar_missing_date_not_first:
  "cmpData ambienteExemplo heapExemplo 0 1 = None
   \<and> selecionarFragmentosUrgentesOuRecentes ambienteExemplo heapExemplo [0, 1] 5 = [0, 1]
   \<and> selecionarFragmentosUrgentesOuRecentes ambienteExemplo heapExemplo [0, 2] 5 = [0, 2]
   \<and> selecionarFragmentosUrgentesOuRecentes ambienteExemplo heapExemplo [0, 3] 5 = [3, 0]"
  by (simp add: selecionarFragmentosUrgentesOuRecentes_def cmpData_def newDate_def
        SortCompare_def heapExemplo_def fragmentoExemplo_def ambienteExemplo_def)

section \<open>Properties of the history ledger\<close>

lemma splice1_length: "i < length xs \<Longrightarrow> length (splice1 i xs) = length xs - 1"
  by (simp add: splice1_def)

lemma splice1_nth:
  "i < length xs \<Longrightarrow> j < length xs - 1 \<Longrightarrow>
     splice1 i xs ! j = (if j < i then xs ! j else xs ! Suc j)"
  by (auto simp: splice1_def nth_append min_def)

text \<open>
  Claim C9.  For a signed-in user and a record of the local array with a history:
  when the index is in range and the dialog is confirmed, exactly the snapshot at the
  index is removed, the later ones move down by one and \<open>ciclos\<close> becomes the new
  length; when the dialog is declined nothing is removed; when the index is out of
  range the function returns \<open>null\<close>, raises nothing, sends no update and leaves every
  record as it was.
\<close>

theorem excluirRevisaoDoCiclo_index:
  assumes "truthy uid"
    and "find (\<lambda>r. f_id (h r) = ident) fragmentosData = Some r"
    and "historico (h r) = Some hs"
  shows "(0 \<le> i \<and> i < int (length hs) \<and> resposta \<longrightarrow>
            excluirRevisaoDoCiclo uid resposta ident i fragmentosData h =
              Inr (Some fragmentosData,
                   h (r := (h r) \<lparr> historico := Some (splice1 (nat i) hs),
                                     ciclos := length hs - 1 \<rparr>),
                   Some (ident, splice1 (nat i) hs, length hs - 1))
            \<and> splice1 (nat i) hs = take (nat i) hs @ drop (nat i + 1) hs
            \<and> length (splice1 (nat i) hs) = length hs - 1
            \<and> (\<forall>j < length hs - 1.
                  splice1 (nat i) hs ! j = (if j < nat i then hs ! j else hs ! Suc j)))
         \<and> (\<not> resposta \<longrightarrow>
              excluirRevisaoDoCiclo uid resposta ident i fragmentosData h = Inr (None, h, None))
         \<and> (\<not> (0 \<le> i \<and> i < int (length hs)) \<longrightarrow>
              excluirRevisaoDoCiclo uid resposta ident i fragmentosData h = Inr (None, h, None))"
proof -
  have dec: "excluirRevisaoDoCiclo uid resposta ident i fragmentosData h = Inr (None, h, None)"
    if "\<not> resposta"
    using assms that by (simp add: excluirRevisaoDoCiclo_def)
  have out: "excluirRevisaoDoCiclo uid resposta ident i fragmentosData h = Inr (None, h, None)"
    if "\<not> (0 \<le> i \<and> i < int (length hs))"
    using assms that by (simp add: excluirRevisaoDoCiclo_def)
  have inr: "excluirRevisaoDoCiclo uid resposta ident i fragmentosData h =
              Inr (Some fragmentosData,
                   h (r := (h r) \<lparr> historico := Some (splice1 (nat i) hs),
                                     ciclos := length hs - 1 \<rparr>),
                   Some (ident, splice1 (nat i) hs, length hs - 1))"
    if "0 \<le> i" "i < int (length hs)" "resposta"
  proof -
    have "nat i < length hs" using that by linarith
    then show ?thesis
      using assms that by (simp add: excluirRevisaoDoCiclo_def Let_def splice1_length)
  qed
  have shape: "length (splice1 (nat i) hs) = length hs - 1
      \<and> (\<forall>j < length hs - 1.
                  splice1 (nat i) hs ! j = (if j < nat i then hs ! j else hs ! Suc j))"
    if "0 \<le> i" "i < int (length hs)"
  proof -
    have "nat i < length hs" using that by linarith
    then show ?thesis by (simp add: splice1_length splice1_nth)
  qed
  have "splice1 (nat i) hs = take (nat i) hs @ drop (nat i + 1) hs"
    by (simp add: splice1_def)
  with out dec inr shape show ?thesis by blast
qed

theorem excluirRevisaoDoCiclo_index_witness:
  "excluirRevisaoDoCiclo (Some ''u1'') True ''1'' 0 [0] heapCiclos =
     Inr (Some [0],
          heapCiclos (0 := (heapCiclos 0)
             \<lparr> historico := Some [cicloExemplo \<lparr> c_data := ''2023-12-15'' \<rparr>], ciclos := 1 \<rparr>),
          Some (''1'', [cicloExemplo \<lparr> c_data := ''2023-12-15'' \<rparr>], 1))
   \<and> excluirRevisaoDoCiclo (Some ''u1'') True ''1'' 2 [0] heapCiclos = Inr (None, heapCiclos, None)
   \<and> excluirRevisaoDoCiclo (Some ''u1'') True ''1'' (- 1) [0] heapCiclos = Inr (None, heapCiclos, None)"
proof -
  have u: "truthy (Some ''u1'')" by (simp add: truthy_def)
  have f: "find (\<lambda>r. f_id (heapCiclos r) = ''1'') [0] = Some 0"
    by (simp add: heapCiclos_def fragmentoExemplo_def)
  have hs: "historico (heapCiclos 0) = Some [cicloExemplo, cicloExemplo \<lparr> c_data := ''2023-12-15'' \<rparr>]"
    by (simp add: heapCiclos_def)
  show ?thesis
    using excluirRevisaoDoCiclo_index [OF u f hs, of 0 True]
      excluirRevisaoDoCiclo_index [OF u f hs, of 2 True]
      excluirRevisaoDoCiclo_index [OF u f hs, of "- 1" True]
    by (simp add: splice1_def)
qed

text \<open>
  Claim C9, as stated without the dialog and the user: with index 0 in range of a
  history of two snapshots and the dialog declined, nothing is removed; and without a
  signed-in user the function raises, whatever the index.
\<close>

theorem excluirRevisaoDoCiclo_declined:
  "historico (heapCiclos 0) = Some [cicloExemplo, cicloExemplo \<lparr> c_data := ''2023-12-15'' \<rparr>]
   \<and> excluirRevisaoDoCiclo (Some ''u1'') False ''1'' 0 [0] heapCiclos = Inr (None, heapCiclos, None)
   \<and> excluirRevisaoDoCiclo None True ''1'' 7 [0] heapCiclos = Inl UidAusente"
  by (simp add: excluirRevisaoDoCiclo_def truthy_def heapCiclos_def fragmentoExemplo_def)

lemma primeiro_Some:
  "primeiro P xs = Some i \<Longrightarrow> i < length xs \<and> P (xs ! i)"
proof (induction xs arbitrary: i)
  case Nil
  then show ?case by simp
next
  case (Cons x xs)
  then show ?case by (cases "P x") (auto simp: nth_Cons')
qed

lemma primeiro_update:
  "primeiro P xs = Some i \<Longrightarrow> P y \<Longrightarrow> primeiro P (xs[i := y]) = Some i"
proof (induction xs arbitrary: i)
  case Nil
  then show ?case by simp
next
  case (Cons x xs)
  then show ?case by (cases "P x") auto
qed

lemma primeiro_append_new:
  "primeiro P xs = None \<Longrightarrow> P y \<Longrightarrow> primeiro P (xs @ [y]) = Some (length xs)"
  by (induction xs) (auto split: if_splits)

lemma docAlvo_None:
  "docAlvo slug t docs = None \<Longrightarrow> primeiro (\<lambda>d. temaSlug d = Some slug) docs = None"
  by (simp add: docAlvo_def split: option.splits)

lemma docAlvo_slug:
  "primeiro (\<lambda>d. temaSlug d = Some slug) docs = Some i \<Longrightarrow> docAlvo slug t docs = Some i"
  by (simp add: docAlvo_def)

lemma docAlvo_Some: "docAlvo slug t docs = Some i \<Longrightarrow> i < length docs"
  by (auto simp: docAlvo_def split: option.splits dest: primeiro_Some)

lemma coerente_atualizado: "coerente (atualizado agora u slug novo d)"
  by (simp add: coerente_def atualizado_def)

lemma coerente_criado: "coerente (criado agora u slug novoId novo)"
  by (simp add: coerente_def criado_def)

lemma historico_atualizado:
  "historico (atualizado agora u slug novo d)
     = Some ((case historico d of None \<Rightarrow> [] | Some hs \<Rightarrow> hs) @ [instantaneo agora d])"
  by (simp add: atualizado_def historicoNovo_def)

lemma salvar_update:
  "truthy uid \<Longrightarrow> docAlvo (normalizarTexto env (tema novo)) (tema novo) docs = Some i \<Longrightarrow>
   salvarFragmentoNoFirestore env agora novoId uid novo docs
     = Inr (docs[i := atualizado agora (the uid) (normalizarTexto env (tema novo)) novo (docs ! i)],
            novo)"
  by (simp add: salvarFragmentoNoFirestore_def Let_def)

lemma salvar_create:
  "truthy uid \<Longrightarrow> docAlvo (normalizarTexto env (tema novo)) (tema novo) docs = None \<Longrightarrow>
   salvarFragmentoNoFirestore env agora novoId uid novo docs
     = Inr (docs @ [criado agora (the uid) (normalizarTexto env (tema novo)) novoId novo],
            novo \<lparr> f_id := novoId \<rparr>)"
  by (simp add: salvarFragmentoNoFirestore_def Let_def)

lemma salvar_coerente:
  assumes "list_all coerente docs"
    and "salvarFragmentoNoFirestore env agora novoId uid novo docs = Inr (docs', novo')"
  shows "list_all coerente docs'"
proof (cases "docAlvo (normalizarTexto env (tema novo)) (tema novo) docs")
  case None
  with assms show ?thesis
    by (auto simp: salvarFragmentoNoFirestore_def Let_def coerente_criado split: if_splits)
next
  case (Some i)
  let ?d = "atualizado agora (the uid) (normalizarTexto env (tema novo)) novo (docs ! i)"
  from Some assms have "docs' = docs[i := ?d]"
    by (auto simp: salvarFragmentoNoFirestore_def Let_def split: if_splits)
  moreover have "set (docs[i := ?d]) \<subseteq> insert ?d (set docs)"
    by (rule set_update_subset_insert)
  moreover have "coerente ?d"
    by (rule coerente_atualizado)
  ultimately show ?thesis
    using assms(1) unfolding list_all_iff by blast
qed

lemma submeter_updates:
  assumes "truthy uid"
  shows "primeiro (\<lambda>d. temaSlug d = Some slug) docs = Some i \<Longrightarrow>
     historico (docs ! i) = Some hs \<Longrightarrow> ciclos (docs ! i) = length hs \<Longrightarrow>
     list_all (\<lambda>(a, n, novo). normalizarTexto env (tema novo) = slug) subs \<Longrightarrow>
     \<exists>docs' hs'. submeter env uid subs docs = Inr docs'
        \<and> primeiro (\<lambda>d. temaSlug d = Some slug) docs' = Some i
        \<and> historico (docs' ! i) = Some hs' \<and> length hs' = length hs + length subs
        \<and> take (length hs) hs' = hs
        \<and> ciclos (docs' ! i) = length hs'"
proof (induction subs arbitrary: docs hs)
  case Nil
  then show ?case by simp
next
  case (Cons sub subs)
  obtain a n novo where sub: "sub = (a, n, novo)" by (cases sub) auto
  from Cons.prems(4) sub have slug: "normalizarTexto env (tema novo) = slug"
    and rest: "list_all (\<lambda>(a, n, novo). normalizarTexto env (tema novo) = slug) subs"
    by simp_all
  let ?d = "atualizado a (the uid) slug novo (docs ! i)"
  let ?docs = "docs[i := ?d]"
  have i: "i < length docs" using primeiro_Some [OF Cons.prems(1)] by simp
  have step: "salvarFragmentoNoFirestore env a n uid novo docs = Inr (?docs, novo)"
    using salvar_update [OF assms, of env novo docs i a n] docAlvo_slug [OF Cons.prems(1)] slug
    by simp
  have p: "primeiro (\<lambda>d. temaSlug d = Some slug) ?docs = Some i"
    using Cons.prems(1) by (rule primeiro_update) (simp add: atualizado_def)
  have h: "historico (?docs ! i) = Some (hs @ [instantaneo a (docs ! i)])"
    using i Cons.prems(2) by (simp add: historico_atualizado)
  have c: "ciclos (?docs ! i) = length (hs @ [instantaneo a (docs ! i)])"
    using i Cons.prems(2) by (simp add: atualizado_def historicoNovo_def)
  from Cons.IH [OF p h c rest] obtain docs' hs' where
    r: "submeter env uid subs ?docs = Inr docs'"
       "primeiro (\<lambda>d. temaSlug d = Some slug) docs' = Some i"
       "historico (docs' ! i) = Some hs'"
       "length hs' = length (hs @ [instantaneo a (docs ! i)]) + length subs"
       "take (length (hs @ [instantaneo a (docs ! i)])) hs' = hs @ [instantaneo a (docs ! i)]"
       "ciclos (docs' ! i) = length hs'"
    by blast
  have "take (length hs) hs' = hs"
  proof -
    have "take (length hs) (take (length (hs @ [instantaneo a (docs ! i)])) hs') = hs"
      unfolding r(5) by simp
    then show ?thesis by (simp add: min_def)
  qed
  with r sub step show ?case by simp
qed

lemma submeter_N:
  assumes uid: "truthy uid"
    and subs: "subs = (a, n, novo) # resto"
    and slug: "list_all (\<lambda>(a, n, novo). normalizarTexto env (tema novo) = slug) subs"
    and fresh: "docAlvo slug (tema novo) docs = None"
  shows "\<exists>docs' hs. submeter env uid subs docs = Inr docs'
        \<and> primeiro (\<lambda>d. temaSlug d = Some slug) docs' = Some (length docs)
        \<and> historico (docs' ! length docs) = Some hs \<and> length hs = length subs - 1
        \<and> ciclos (docs' ! length docs) = length subs - 1"
proof -
  from slug subs have s: "normalizarTexto env (tema novo) = slug"
    and rest: "list_all (\<lambda>(a, n, novo). normalizarTexto env (tema novo) = slug) resto"
    by simp_all
  let ?c = "criado a (the uid) slug n novo"
  have step: "salvarFragmentoNoFirestore env a n uid novo docs = Inr (docs @ [?c], novo \<lparr> f_id := n \<rparr>)"
    using salvar_create [OF uid, of env novo docs a n] fresh s by simp
  have p: "primeiro (\<lambda>d. temaSlug d = Some slug) (docs @ [?c]) = Some (length docs)"
    using docAlvo_None [OF fresh] by (rule primeiro_append_new) (simp add: criado_def)
  have h: "historico ((docs @ [?c]) ! length docs) = Some []"
    by (simp add: criado_def)
  have c: "ciclos ((docs @ [?c]) ! length docs) = length ([] :: ciclo list)"
    by (simp add: criado_def)
  from submeter_updates [OF uid p h c rest] obtain docs' hs' where
    "submeter env uid resto (docs @ [?c]) = Inr docs'"
    "primeiro (\<lambda>d. temaSlug d = Some slug) docs' = Some (length docs)"
    "historico (docs' ! length docs) = Some hs'" "length hs' = length resto"
    "ciclos (docs' ! length docs) = length hs'"
    by auto
  with step subs show ?thesis by simp
qed

lemma excluir_efeito:
  assumes "excluirRevisaoDoCiclo uid resposta ident idx lista h = Inr (Some l, h', w)"
  shows "\<exists>r hs. find (\<lambda>r. f_id (h r) = ident) lista = Some r \<and> historico (h r) = Some hs
           \<and> 0 \<le> idx \<and> nat idx < length hs
           \<and> h' = h (r := (h r) \<lparr> historico := Some (splice1 (nat idx) hs),
                                    ciclos := length (splice1 (nat idx) hs) \<rparr>)"
  using assms
  by (auto simp: excluirRevisaoDoCiclo_def Let_def split: if_splits option.splits)

lemma excluir_sem_efeito:
  "excluirRevisaoDoCiclo uid resposta ident idx lista h = Inr (None, h', w) \<Longrightarrow> h' = h"
  by (auto simp: excluirRevisaoDoCiclo_def Let_def split: if_splits option.splits)

lemma excluir_coerente:
  assumes "excluirRevisaoDoCiclo uid resposta ident idx lista h = Inr (res, h', w)"
    and "coerente (h q)"
  shows "coerente (h' q)"
proof (cases res)
  case None
  with assms excluir_sem_efeito show ?thesis by blast
next
  case (Some l)
  with assms(1) excluir_efeito obtain r hs where
    "h' = h (r := (h r) \<lparr> historico := Some (splice1 (nat idx) hs),
                           ciclos := length (splice1 (nat idx) hs) \<rparr>)"
    by blast
  with assms(2) show ?thesis by (simp add: coerente_def)
qed

text \<open>
  Claim C2.  The cycle count is the length of the snapshot list after every operation
  of the ledger.  (1) A submission that matches a stored record appends exactly one
  snapshot to its history, sets \<open>ciclos\<close> to the new length and touches no other record.
  (2) Every submission keeps the invariant of all stored records.  (3) From a collection
  without a match, after N submissions with the same normalized key the record found
  for the key has a history of length N - 1 and \<open>ciclos\<close> N - 1.  (4) A cycle deletion that
  takes place shortens the history by one, sets \<open>ciclos\<close> to the shortened length and
  changes no other record; (5) every call keeps the invariant.
\<close>

theorem ledger_cycle_count:
  "(truthy uid \<and> docAlvo (normalizarTexto env (tema novo)) (tema novo) docs = Some i \<longrightarrow>
      (\<exists>docs1. salvarFragmentoNoFirestore env agora novoId uid novo docs = Inr (docs1, novo)
         \<and> length docs1 = length docs
         \<and> historico (docs1 ! i)
             = Some ((case historico (docs ! i) of None \<Rightarrow> [] | Some hs \<Rightarrow> hs)
                     @ [instantaneo agora (docs ! i)])
         \<and> ciclos (docs1 ! i)
             = length (case historico (docs ! i) of None \<Rightarrow> [] | Some hs \<Rightarrow> hs) + 1
         \<and> (\<forall>j. j \<noteq> i \<longrightarrow> docs1 ! j = docs ! j)))
   \<and> (list_all coerente docs
        \<and> salvarFragmentoNoFirestore env agora novoId uid novo docs = Inr (docs2, novo2)
      \<longrightarrow> list_all coerente docs2)
   \<and> (truthy uid \<and> subs = (a, n, primeira) # resto
        \<and> list_all (\<lambda>(a, n, novo). normalizarTexto env (tema novo) = slug) subs
        \<and> docAlvo slug (tema primeira) docs = None
      \<longrightarrow> (\<exists>docs3 hs. submeter env uid subs docs = Inr docs3
             \<and> primeiro (\<lambda>d. temaSlug d = Some slug) docs3 = Some (length docs)
             \<and> historico (docs3 ! length docs) = Some hs \<and> length hs = length subs - 1
             \<and> ciclos (docs3 ! length docs) = length subs - 1))
   \<and> (excluirRevisaoDoCiclo uid resposta ident idx lista h = Inr (Some l, h', w)
      \<longrightarrow> (\<exists>r hs. find (\<lambda>r. f_id (h r) = ident) lista = Some r \<and> historico (h r) = Some hs
             \<and> historico (h' r) = Some (splice1 (nat idx) hs)
             \<and> length (splice1 (nat idx) hs) = length hs - 1
             \<and> ciclos (h' r) = length hs - 1
             \<and> (\<forall>q. q \<noteq> r \<longrightarrow> h' q = h q)))
   \<and> (excluirRevisaoDoCiclo uid resposta ident idx lista h = Inr (res, h5, w5) \<and> coerente (h q)
      \<longrightarrow> coerente (h5 q))"
proof -
  have p1: "\<exists>docs1. salvarFragmentoNoFirestore env agora novoId uid novo docs = Inr (docs1, novo)
         \<and> length docs1 = length docs
         \<and> historico (docs1 ! i)
             = Some ((case historico (docs ! i) of None \<Rightarrow> [] | Some hs \<Rightarrow> hs)
                     @ [instantaneo agora (docs ! i)])
         \<and> ciclos (docs1 ! i)
             = length (case historico (docs ! i) of None \<Rightarrow> [] | Some hs \<Rightarrow> hs) + 1
         \<and> (\<forall>j. j \<noteq> i \<longrightarrow> docs1 ! j = docs ! j)"
    if u: "truthy uid"
      and d: "docAlvo (normalizarTexto env (tema novo)) (tema novo) docs = Some i"
  proof -
    have "i < length docs" using d by (rule docAlvo_Some)
    then show ?thesis
      using salvar_update [OF u d, of agora novoId]
      by (simp add: historico_atualizado) (simp add: atualizado_def historicoNovo_def)
  qed
  have p2: "list_all coerente docs2"
    if "list_all coerente docs"
      "salvarFragmentoNoFirestore env agora novoId uid novo docs = Inr (docs2, novo2)"
    using that by (rule salvar_coerente)
  have p3: "\<exists>docs3 hs. submeter env uid subs docs = Inr docs3
             \<and> primeiro (\<lambda>d. temaSlug d = Some slug) docs3 = Some (length docs)
             \<and> historico (docs3 ! length docs) = Some hs \<and> length hs = length subs - 1
             \<and> ciclos (docs3 ! length docs) = length subs - 1"
    if "truthy uid" "subs = (a, n, primeira) # resto"
      "list_all (\<lambda>(a, n, novo). normalizarTexto env (tema novo) = slug) subs"
      "docAlvo slug (tema primeira) docs = None"
    using that by (rule submeter_N)
  have p4: "\<exists>r hs. find (\<lambda>r. f_id (h r) = ident) lista = Some r \<and> historico (h r) = Some hs
             \<and> historico (h' r) = Some (splice1 (nat idx) hs)
             \<and> length (splice1 (nat idx) hs) = length hs - 1
             \<and> ciclos (h' r) = length hs - 1
             \<and> (\<forall>q. q \<noteq> r \<longrightarrow> h' q = h q)"
    if e: "excluirRevisaoDoCiclo uid resposta ident idx lista h = Inr (Some l, h', w)"
  proof -
    from excluir_efeito [OF e] obtain r hs where
      r: "find (\<lambda>r. f_id (h r) = ident) lista = Some r" "historico (h r) = Some hs"
         "nat idx < length hs"
         "h' = h (r := (h r) \<lparr> historico := Some (splice1 (nat idx) hs),
                                ciclos := length (splice1 (nat idx) hs) \<rparr>)"
      by blast
    have "length (splice1 (nat idx) hs) = length hs - 1"
      using r(3) by (rule splice1_length)
    with r show ?thesis by simp
  qed
  have p5: "coerente (h5 q)"
    if "excluirRevisaoDoCiclo uid resposta ident idx lista h = Inr (res, h5, w5)" "coerente (h q)"
    using that by (rule excluir_coerente)
  from p1 p2 p3 p4 p5 show ?thesis by blast
qed

lemma toLowerCase_Anatomia: "toLowerCase ''Anatomia'' = ''anatomia''"
  by code_simp

theorem ledger_cycle_count_witness:
  "truthy (Some ''u1'')
   \<and> docAlvo ''anatomia'' (tema submissao1) [] = None
   \<and> (\<exists>docs3 hs.
         submeter ambienteExemplo (Some ''u1'')
           [(''2024-01-01T10:00:00.000Z'', ''d1'', submissao1),
            (''2024-01-08T10:00:00.000Z'', ''d2'', submissao2),
            (''2024-01-15T10:00:00.000Z'', ''d3'', submissao1)] [] = Inr docs3
         \<and> primeiro (\<lambda>d. temaSlug d = Some ''anatomia'') docs3 = Some 0
         \<and> historico (docs3 ! 0) = Some hs \<and> length hs = 2 \<and> ciclos (docs3 ! 0) = 2)
   \<and> (\<exists>h' w hs.
         excluirRevisaoDoCiclo (Some ''u1'') True ''1'' 1 [0] heapCiclos = Inr (Some [0], h', w)
         \<and> historico (h' 0) = Some hs \<and> length hs = 1 \<and> ciclos (h' 0) = 1)"
proof -
  let ?subs = "[(''2024-01-01T10:00:00.000Z'', ''d1'', submissao1),
            (''2024-01-08T10:00:00.000Z'', ''d2'', submissao2),
            (''2024-01-15T10:00:00.000Z'', ''d3'', submissao1)]"
  let ?h' = "heapCiclos (0 := (heapCiclos 0) \<lparr> historico := Some [cicloExemplo], ciclos := 1 \<rparr>)"
  have u: "truthy (Some ''u1'')"
    by (simp add: truthy_def)
  have f: "docAlvo ''anatomia'' (tema submissao1) [] = None"
    by (simp add: docAlvo_def)
  have k: "list_all (\<lambda>(a, n, novo). normalizarTexto ambienteExemplo (tema novo) = ''anatomia'') ?subs"
    by (simp add: ambienteExemplo_def submissao1_def submissao2_def fragmentoExemplo_def
          toLowerCase_Anatomia)
  have e: "excluirRevisaoDoCiclo (Some ''u1'') True ''1'' 1 [0] heapCiclos
        = Inr (Some [0], ?h', Some (''1'', [cicloExemplo], 1))"
    by (simp add: excluirRevisaoDoCiclo_def truthy_def heapCiclos_def fragmentoExemplo_def
          Let_def splice1_def)
  note T = ledger_cycle_count
      [where uid = "Some ''u1''" and env = ambienteExemplo and subs = ?subs
         and a = "''2024-01-01T10:00:00.000Z''" and n = "''d1''" and primeira = submissao1
         and resto = "[(''2024-01-08T10:00:00.000Z'', ''d2'', submissao2),
                       (''2024-01-15T10:00:00.000Z'', ''d3'', submissao1)]"
         and slug = "''anatomia''" and docs = "[]"
         and resposta = True and ident = "''1''" and idx = 1 and lista = "[0]"
         and h = heapCiclos and l = "[0]" and h' = ?h'
         and w = "Some (''1'', [cicloExemplo], 1)"]
  from T u f k have "\<exists>docs3 hs. submeter ambienteExemplo (Some ''u1'') ?subs [] = Inr docs3
         \<and> primeiro (\<lambda>d. temaSlug d = Some ''anatomia'') docs3 = Some (length ([] :: fragmento list))
         \<and> historico (docs3 ! length ([] :: fragmento list)) = Some hs
         \<and> length hs = length ?subs - 1
         \<and> ciclos (docs3 ! length ([] :: fragmento list)) = length ?subs - 1"
    by blast
  then have p3: "\<exists>docs3 hs. submeter ambienteExemplo (Some ''u1'') ?subs [] = Inr docs3
         \<and> primeiro (\<lambda>d. temaSlug d = Some ''anatomia'') docs3 = Some 0
         \<and> historico (docs3 ! 0) = Some hs \<and> length hs = 2 \<and> ciclos (docs3 ! 0) = 2"
    by (simp add: numeral_2_eq_2 del: submeter.simps)
  from T e have "\<exists>r hs. find (\<lambda>r. f_id (heapCiclos r) = ''1'') [0] = Some r
             \<and> historico (heapCiclos r) = Some hs
             \<and> historico (?h' r) = Some (splice1 (nat 1) hs)
             \<and> length (splice1 (nat 1) hs) = length hs - 1
             \<and> ciclos (?h' r) = length hs - 1
             \<and> (\<forall>q. q \<noteq> r \<longrightarrow> ?h' q = heapCiclos q)"
    by blast
  then have "historico (?h' 0) = Some [cicloExemplo] \<and> ciclos (?h' 0) = 1"
    by (simp add: heapCiclos_def)
  with e have p4: "\<exists>h' w hs.
         excluirRevisaoDoCiclo (Some ''u1'') True ''1'' 1 [0] heapCiclos = Inr (Some [0], h', w)
         \<and> historico (h' 0) = Some hs \<and> length hs = 1 \<and> ciclos (h' 0) = 1"
    by simp
  from u f p3 p4 show ?thesis by blast
qed

end
